theory Spec2Isabelle
  imports Main "HOL-Library.Word"
begin

unbundle bit_operations_syntax

section \<open>The pipe sink of gr-pipe (lib/sink\_impl.cc)\<close>

text \<open>
  The sink forks a shell command, keeps the write end of a pipe to the command's
  standard input, writes the items of every \<open>work\<close> call into it and reaps the
  command in its destructor. Every function of \<^verbatim>\<open>sink_impl.cc\<close> is embedded below
  under its own name (the constructor as \<open>sink_impl_ctor\<close>, the destructor as
  \<open>sink_impl_dtor\<close>). The operating system and the C library are not part of the
  file: they are modelled here as a \<open>world\<close> that the functions pass along, and
  every result the program cannot determine itself (did \<open>fork\<close> fail, how much did
  \<open>fwrite\<close> take, what did \<open>waitpid\<close> report) is an explicit \<^emph>\<open>answer\<close> argument.
  The world records each call in a trace, in program order.
\<close>

subsection \<open>Values\<close>

text \<open>
  C \<open>int\<close>, \<open>long\<close> and \<open>pid_t\<close> values are HOL integers: the program only compares
  them and combines them bitwise, which cannot overflow. The one narrowing
  conversion of the file (\<open>size_t\<close> to \<open>int\<close>, in \<open>write_process_input\<close>) is written
  out. \<open>size_t\<close> values are natural numbers below \<open>2 ^ 64\<close>.
\<close>

type_synonym fd = int

datatype file_ptr = NULL | FILE fd

text \<open>
  Every way a call can end other than by returning: the \<open>std::runtime_error\<close>
  thrown by the file, \<open>exit\<close>, a successful \<open>execl\<close> (the process goes on as the
  shell), and undefined behaviour (a C library call on a pointer that is no open
  stream, a read of an indeterminate local, \<open>input_items[0]\<close> of an empty vector).
\<close>

datatype abrupt =
    Runtime_error string
  | Process_exit int
  | Image_replaced string "string list"
  | Undefined_behaviour

datatype event =
    Sys_pipe
  | Sys_fork
  | Sys_dup2 fd fd
  | Sys_close fd
  | Sys_execl string "string list"
  | Sys_exit int
  | Sys_waitpid int int
  | Fcntl_GETFL fd
  | Fcntl_SETFL fd int
  | Fcntl_SETFD fd int
  | Lib_fdopen fd string
  | Lib_fclose file_ptr
  | Lib_fwrite file_ptr nat nat
  | Lib_fflush file_ptr
  | Perror string
  | Cerr string "int option"

record fd_entry =
  status_flags :: int
  descriptor_flags :: int

text \<open>
  \<open>fdtab\<close>: the open descriptors of the process, with their file status flags
  (\<open>F_GETFL\<close>) and descriptor flags (\<open>F_GETFD\<close>). \<open>streams\<close>: the open stdio
  streams, by descriptor, with their error indicator.
\<close>

record world =
  fdtab :: "fd \<rightharpoonup> fd_entry"
  streams :: "fd \<rightharpoonup> bool"
  errno :: int
  trace :: "event list"

text \<open>The members of \<open>sink_impl\<close>.\<close>

record sink_impl =
  d_in_item_sz :: nat
  d_cmd_stdin_pipe :: "fd \<times> fd"
  d_cmd_pid :: int
  d_cmd_stdin :: file_ptr
  d_unbuffered :: bool

subsection \<open>Constants of the system headers (Linux, glibc)\<close>

definition O_RDONLY :: int where "O_RDONLY = 0"
definition O_WRONLY :: int where "O_WRONLY = 1"
definition O_APPEND :: int where "O_APPEND = 1024"
definition O_NONBLOCK :: int where "O_NONBLOCK = 2048"
definition O_ASYNC :: int where "O_ASYNC = 8192"
definition O_DIRECT :: int where "O_DIRECT = 16384"
definition O_NOATIME :: int where "O_NOATIME = 262144"
definition FD_CLOEXEC :: int where "FD_CLOEXEC = 1"
definition STDIN_FILENO :: fd where "STDIN_FILENO = 0"
definition EXIT_FAILURE :: int where "EXIT_FAILURE = 1"
definition EINTR :: int where "EINTR = 4"
definition EBADF :: int where "EBADF = 9"
definition EAGAIN :: int where "EAGAIN = 11"
definition EWOULDBLOCK :: int where "EWOULDBLOCK = 11"
definition EPIPE :: int where "EPIPE = 32"

definition WIFEXITED :: "int \<Rightarrow> bool" where
  "WIFEXITED status = (status AND 127 = 0)"

definition WEXITSTATUS :: "int \<Rightarrow> int" where
  "WEXITSTATUS status = drop_bit 8 (status AND 65280)"

subsection \<open>The operating system and the C library\<close>

definition emit :: "event \<Rightarrow> world \<Rightarrow> world" where
  "emit e w = w\<lparr>trace := trace w @ [e]\<rparr>"

text \<open>\<open>perror(s)\<close> writes \<open>s\<close> and the message of \<open>errno\<close> to the diagnostic stream.\<close>

definition perror :: "string \<Rightarrow> world \<Rightarrow> world" where
  "perror s w = emit (Perror s) w"

definition cerr :: "string \<Rightarrow> int option \<Rightarrow> world \<Rightarrow> world" where
  "cerr s n w = emit (Cerr s n) w"

text \<open>
  \<open>fcntl\<close> fails with \<open>EBADF\<close> on a descriptor that is not open and succeeds
  otherwise. \<open>F_SETFL\<close> changes only the status flags of \<open>SETFL_MASK\<close>
  (\<open>O_APPEND\<close>, \<open>O_ASYNC\<close>, \<open>O_DIRECT\<close>, \<open>O_NOATIME\<close>, \<open>O_NONBLOCK\<close>): these
  are taken from its argument, and the access mode and every other bit of the
  descriptor stay as they are, whatever the argument holds there.
\<close>

definition SETFL_MASK :: int where
  "SETFL_MASK = O_APPEND OR O_ASYNC OR O_DIRECT OR O_NOATIME OR O_NONBLOCK"

definition fcntl_getfl :: "fd \<Rightarrow> world \<Rightarrow> int \<times> world" where
  "fcntl_getfl d w =
     (let w1 = emit (Fcntl_GETFL d) w in
      case fdtab w d of
        None \<Rightarrow> (- 1, w1\<lparr>errno := EBADF\<rparr>)
      | Some e \<Rightarrow> (status_flags e, w1))"

definition fcntl_setfl :: "fd \<Rightarrow> int \<Rightarrow> world \<Rightarrow> int \<times> world" where
  "fcntl_setfl d arg w =
     (let w1 = emit (Fcntl_SETFL d arg) w in
      case fdtab w d of
        None \<Rightarrow> (- 1, w1\<lparr>errno := EBADF\<rparr>)
      | Some e \<Rightarrow>
          (0, w1\<lparr>fdtab := (fdtab w)
                 (d \<mapsto> e\<lparr>status_flags :=
                          (status_flags e AND NOT SETFL_MASK) OR (arg AND SETFL_MASK)\<rparr>)\<rparr>))"

definition fcntl_setfd :: "fd \<Rightarrow> int \<Rightarrow> world \<Rightarrow> int \<times> world" where
  "fcntl_setfd d arg w =
     (let w1 = emit (Fcntl_SETFD d arg) w in
      case fdtab w d of
        None \<Rightarrow> (- 1, w1\<lparr>errno := EBADF\<rparr>)
      | Some e \<Rightarrow> (0, w1\<lparr>fdtab := (fdtab w)(d \<mapsto> e\<lparr>descriptor_flags := arg\<rparr>)\<rparr>))"

text \<open>
  \<open>pipe\<close>: the answer is the \<open>errno\<close> of a failure, or the two descriptors the
  kernel opened (read end, write end). On failure the array is left as it was.
\<close>

definition sys_pipe :: "int + fd \<times> fd \<Rightarrow> fd \<times> fd \<Rightarrow> world \<Rightarrow> (int \<times> fd \<times> fd) \<times> world" where
  "sys_pipe answer pipefd w =
     (let w1 = emit Sys_pipe w in
      case answer of
        Inl e \<Rightarrow> ((- 1, pipefd), w1\<lparr>errno := e\<rparr>)
      | Inr (r, wr) \<Rightarrow>
          ((0, (r, wr)),
           w1\<lparr>fdtab := (fdtab w)
                 (r \<mapsto> \<lparr>status_flags = O_RDONLY, descriptor_flags = 0\<rparr>,
                  wr \<mapsto> \<lparr>status_flags = O_WRONLY, descriptor_flags = 0\<rparr>)\<rparr>))"

text \<open>
  \<open>fork\<close>: the answer is the \<open>errno\<close> of a failure, or the value \<open>fork\<close> returns
  in the process that is followed (0 in the child, the child's pid in the parent).
\<close>

definition sys_fork :: "int + int \<Rightarrow> world \<Rightarrow> int \<times> world" where
  "sys_fork answer w =
     (let w1 = emit Sys_fork w in
      case answer of
        Inl e \<Rightarrow> (- 1, w1\<lparr>errno := e\<rparr>)
      | Inr pid \<Rightarrow> (pid, w1))"

definition sys_dup2 :: "fd \<Rightarrow> fd \<Rightarrow> world \<Rightarrow> world" where
  "sys_dup2 oldfd newfd w =
     (let w1 = emit (Sys_dup2 oldfd newfd) w in
      case fdtab w oldfd of
        None \<Rightarrow> w1\<lparr>errno := EBADF\<rparr>
      | Some e \<Rightarrow>
          if oldfd = newfd then w1
          else w1\<lparr>fdtab := (fdtab w)(newfd \<mapsto> e\<lparr>descriptor_flags := 0\<rparr>)\<rparr>)"

definition sys_close :: "fd \<Rightarrow> world \<Rightarrow> world" where
  "sys_close d w =
     (let w1 = emit (Sys_close d) w in
      case fdtab w d of
        None \<Rightarrow> w1\<lparr>errno := EBADF\<rparr>
      | Some e \<Rightarrow> w1\<lparr>fdtab := (fdtab w)(d := None)\<rparr>)"

text \<open>
  \<open>execl\<close>: the answer is \<open>None\<close> when the image is replaced (the call does not
  return) and the \<open>errno\<close> of the failure otherwise.
\<close>

definition sys_execl :: "string \<Rightarrow> string list \<Rightarrow> int option \<Rightarrow> world \<Rightarrow> int option \<times> world" where
  "sys_execl path args answer w =
     (let w1 = emit (Sys_execl path args) w in
      case answer of
        None \<Rightarrow> (None, w1)
      | Some e \<Rightarrow> (Some (- 1), w1\<lparr>errno := e\<rparr>))"

definition sys_exit :: "int \<Rightarrow> world \<Rightarrow> world" where
  "sys_exit status w = emit (Sys_exit status) w"

text \<open>
  \<open>waitpid\<close>: the answer is the \<open>errno\<close> of a failure, or the pid of the child
  that was reaped and its wait status, which is stored through the pointer.
\<close>

datatype wait_answer = Wait_fails int | Wait_reaps nat int

definition sys_waitpid ::
  "int \<Rightarrow> int \<Rightarrow> wait_answer \<Rightarrow> int option \<Rightarrow> world \<Rightarrow> (int \<times> int option) \<times> world" where
  "sys_waitpid pid options answer pstat w =
     (let w1 = emit (Sys_waitpid pid options) w in
      case answer of
        Wait_fails e \<Rightarrow> ((- 1, pstat), w1\<lparr>errno := e\<rparr>)
      | Wait_reaps p status \<Rightarrow> ((int p, Some status), w1))"

definition live :: "file_ptr \<Rightarrow> world \<Rightarrow> bool" where
  "live f w = (case f of NULL \<Rightarrow> False | FILE d \<Rightarrow> streams w d \<noteq> None)"

definition ferror :: "file_ptr \<Rightarrow> world \<Rightarrow> bool" where
  "ferror f w = (case f of NULL \<Rightarrow> False | FILE d \<Rightarrow> streams w d = Some True)"

definition set_error_indicator :: "file_ptr \<Rightarrow> world \<Rightarrow> world" where
  "set_error_indicator f w =
     (case f of NULL \<Rightarrow> w | FILE d \<Rightarrow> w\<lparr>streams := (streams w)(d \<mapsto> True)\<rparr>)"

text \<open>
  \<open>fdopen\<close>: the answer is \<open>None\<close>, or the \<open>errno\<close> of a failure. It also fails on
  a descriptor that is not open. The new stream has a clear error indicator.
\<close>

definition lib_fdopen :: "fd \<Rightarrow> string \<Rightarrow> int option \<Rightarrow> world \<Rightarrow> file_ptr \<times> world" where
  "lib_fdopen d mode answer w =
     (let w1 = emit (Lib_fdopen d mode) w in
      case answer of
        Some e \<Rightarrow> (NULL, w1\<lparr>errno := e\<rparr>)
      | None \<Rightarrow>
          (case fdtab w d of
             None \<Rightarrow> (NULL, w1\<lparr>errno := EBADF\<rparr>)
           | Some _ \<Rightarrow> (FILE d, w1\<lparr>streams := (streams w)(d \<mapsto> False)\<rparr>)))"

text \<open>\<open>fclose\<close> flushes the stream, closes its descriptor and ends the stream.\<close>

definition lib_fclose :: "file_ptr \<Rightarrow> world \<Rightarrow> world" where
  "lib_fclose f w =
     (let w1 = emit (Lib_fclose f) w in
      case f of
        NULL \<Rightarrow> w1
      | FILE d \<Rightarrow> w1\<lparr>fdtab := (fdtab w)(d := None), streams := (streams w)(d := None)\<rparr>)"

text \<open>
  \<open>fwrite\<close>: the answer says whether the stream took every byte of the request,
  or met a write error after taking some bytes, with the \<open>errno\<close> of the error.
  As the C standard has it, the call returns the number of whole elements
  written, which is less than \<open>nmemb\<close> only after a write error, and 0 without
  touching the stream when \<open>size\<close> or \<open>nmemb\<close> is 0.
\<close>

datatype fwrite_answer = Fwrite_complete | Fwrite_error nat int

definition fwrite_accepted_bytes :: "nat \<Rightarrow> nat \<Rightarrow> fwrite_answer \<Rightarrow> nat" where
  "fwrite_accepted_bytes size' nmemb answer =
     (case answer of
        Fwrite_complete \<Rightarrow> size' * nmemb
      | Fwrite_error b e \<Rightarrow> min b (size' * nmemb))"

definition lib_fwrite :: "file_ptr \<Rightarrow> nat \<Rightarrow> nat \<Rightarrow> fwrite_answer \<Rightarrow> world \<Rightarrow> nat \<times> world" where
  "lib_fwrite f size' nmemb answer w =
     (let w1 = emit (Lib_fwrite f size' nmemb) w in
      if size' = 0 \<or> nmemb = 0 then (0, w1)
      else
        (case answer of
           Fwrite_complete \<Rightarrow> (nmemb, w1)
         | Fwrite_error b e \<Rightarrow>
             (fwrite_accepted_bytes size' nmemb answer div size',
              set_error_indicator f (w1\<lparr>errno := e\<rparr>))))"

text \<open>\<open>fflush\<close>: the answer is \<open>None\<close>, or the \<open>errno\<close> of a write error.\<close>

definition lib_fflush :: "file_ptr \<Rightarrow> int option \<Rightarrow> world \<Rightarrow> world" where
  "lib_fflush f answer w =
     (let w1 = emit (Lib_fflush f) w in
      case answer of
        None \<Rightarrow> w1
      | Some e \<Rightarrow> set_error_indicator f (w1\<lparr>errno := e\<rparr>))"

text \<open>The conversions between \<open>int\<close> (32 bits) and \<open>size_t\<close> (64 bits).\<close>

definition size_t_of_int :: "int \<Rightarrow> nat" where
  "size_t_of_int n = nat (n mod 2 ^ 64)"

definition int_of_size_t :: "nat \<Rightarrow> int" where
  "int_of_size_t r =
     (let m = int r mod 2 ^ 32 in if m < 2 ^ 31 then m else m - 2 ^ 32)"

subsection \<open>The functions of sink\_impl.cc\<close>

definition unbuffered :: "sink_impl \<Rightarrow> bool" where
  "unbuffered s = d_unbuffered s"

definition set_unbuffered :: "bool \<Rightarrow> sink_impl \<Rightarrow> sink_impl" where
  "set_unbuffered b s = s\<lparr>d_unbuffered := b\<rparr>"

definition set_fd_flags :: "fd \<Rightarrow> int \<Rightarrow> world \<Rightarrow> (abrupt + unit) \<times> world" where
  "set_fd_flags d flags w =
     (let (ret, w1) = fcntl_getfl d w in
      if ret = - 1 then (Inl (Runtime_error ''fcntl() error''), perror ''fcntl()'' w1)
      else
        let (ret', w2) = fcntl_setfl d (ret OR flags) w1 in
        if ret' = - 1 then (Inl (Runtime_error ''fcntl() error''), perror ''fcntl()'' w2)
        else (Inr (), w2))"

definition reset_fd_flags :: "fd \<Rightarrow> int \<Rightarrow> world \<Rightarrow> (abrupt + unit) \<times> world" where
  "reset_fd_flags d flag w =
     (let (ret, w1) = fcntl_getfl d w in
      if ret = - 1 then (Inl (Runtime_error ''fcntl() error''), perror ''fcntl()'' w1)
      else
        let (ret', w2) = fcntl_setfl d (ret AND NOT flag) w1 in
        if ret' = - 1 then (Inl (Runtime_error ''fcntl() error''), perror ''fcntl()'' w2)
        else (Inr (), w2))"

definition create_pipe :: "int + fd \<times> fd \<Rightarrow> fd \<times> fd \<Rightarrow> world \<Rightarrow> (abrupt + fd \<times> fd) \<times> world" where
  "create_pipe answer pipefd w =
     (let ((ret, pipefd'), w1) = sys_pipe answer pipefd w in
      if ret \<noteq> 0 then (Inl (Runtime_error ''pipe() error''), perror ''pipe()'' w1)
      else (Inr pipefd', w1))"

text \<open>The answers of the calls of \<open>create_command_process\<close>.\<close>

record spawn_answers =
  pipe_answer :: "int + fd \<times> fd"
  fork_answer :: "int + int"
  execl_answer :: "int option"
  fdopen_answer :: "int option"

definition create_command_process ::
  "string \<Rightarrow> spawn_answers \<Rightarrow> sink_impl \<Rightarrow> world \<Rightarrow> (abrupt + sink_impl) \<times> world" where
  "create_command_process cmd ans s w =
     (case create_pipe (pipe_answer ans) (d_cmd_stdin_pipe s) w of
        (Inl x, w1) \<Rightarrow> (Inl x, w1)
      | (Inr pipefd, w1) \<Rightarrow>
          let s1 = s\<lparr>d_cmd_stdin_pipe := pipefd\<rparr>;
              (pid, w2) = sys_fork (fork_answer ans) w1;
              s2 = s1\<lparr>d_cmd_pid := pid\<rparr>
          in
          if pid = - 1 then (Inr s2, perror ''fork()'' w2)
          else if pid = 0 then
            let w3 = sys_dup2 (fst pipefd) STDIN_FILENO w2;
                w4 = sys_close (fst pipefd) w3;
                w5 = sys_close (snd pipefd) w4
            in
            (case sys_execl ''/bin/sh'' [''sh'', ''-c'', cmd] (execl_answer ans) w5 of
               (None, w6) \<Rightarrow> (Inl (Image_replaced ''/bin/sh'' [''sh'', ''-c'', cmd]), w6)
             | (Some _, w6) \<Rightarrow>
                 (Inl (Process_exit EXIT_FAILURE),
                  sys_exit EXIT_FAILURE (perror ''execl()'' w6)))
          else
            let w3 = sys_close (fst pipefd) w2 in
            (case set_fd_flags (snd pipefd) O_NONBLOCK w3 of
               (Inl x, w4) \<Rightarrow> (Inl x, w4)
             | (Inr _, w4) \<Rightarrow>
                 let (_, w5) = fcntl_setfd (snd pipefd) FD_CLOEXEC w4;
                     (f, w6) = lib_fdopen (snd pipefd) ''w'' (fdopen_answer ans) w5;
                     s3 = s2\<lparr>d_cmd_stdin := f\<rparr>
                 in
                 if f = NULL
                 then (Inl (Runtime_error ''fdopen() error''), perror ''fdopen()'' w6)
                 else (Inr s3, w6)))"

text \<open>
  The constructor. Its last argument is the object before construction: the
  members the constructor does not assign keep whatever they hold.
\<close>

definition sink_impl_ctor ::
  "nat \<Rightarrow> string \<Rightarrow> spawn_answers \<Rightarrow> sink_impl \<Rightarrow> world \<Rightarrow> (abrupt + sink_impl) \<times> world" where
  "sink_impl_ctor in_item_sz cmd ans s0 w =
     create_command_process cmd ans (s0\<lparr>d_in_item_sz := in_item_sz\<rparr>) w"

text \<open>\<open>sink::make\<close>: \<open>new\<close> gives the object \<open>s0\<close> and runs the constructor on it.\<close>

definition sink_make ::
  "nat \<Rightarrow> string \<Rightarrow> spawn_answers \<Rightarrow> sink_impl \<Rightarrow> world \<Rightarrow> (abrupt + sink_impl) \<times> world" where
  "sink_make in_item_sz cmd ans s0 w = sink_impl_ctor in_item_sz cmd ans s0 w"

text \<open>The answers of the calls of \<open>write_process_input\<close>.\<close>

record write_answers =
  fwrite_answer :: fwrite_answer
  fflush_answer :: "int option"

definition write_process_input ::
  "8 word list \<Rightarrow> int \<Rightarrow> write_answers \<Rightarrow> sink_impl \<Rightarrow> world \<Rightarrow> (abrupt + int) \<times> world" where
  "write_process_input inp nitems ans s w =
     (if \<not> live (d_cmd_stdin s) w then (Inl Undefined_behaviour, w)
      else
        let (ret, w1) =
              lib_fwrite (d_cmd_stdin s) (d_in_item_sz s) (size_t_of_int nitems)
                (fwrite_answer ans) w
        in
        if ret = 0 \<and> ferror (d_cmd_stdin s) w1 \<and> errno w1 \<noteq> EAGAIN \<and> errno w1 \<noteq> EWOULDBLOCK
        then (Inl (Runtime_error ''fwrite() error''), w1)
        else
          let w2 = (if d_unbuffered s
                    then lib_fflush (d_cmd_stdin s) (fflush_answer ans) w1
                    else w1)
          in (Inr (int_of_size_t ret), w2))"

definition work ::
  "int \<Rightarrow> 8 word list list \<Rightarrow> write_answers \<Rightarrow> sink_impl \<Rightarrow> world \<Rightarrow> (abrupt + int) \<times> world" where
  "work noutput_items input_items ans s w =
     (case input_items of
        [] \<Rightarrow> (Inl Undefined_behaviour, w)
      | inp # _ \<Rightarrow>
          (case write_process_input inp noutput_items ans s w of
             (Inl x, w1) \<Rightarrow> (Inl x, w1)
           | (Inr n_consumed, w1) \<Rightarrow> (Inr noutput_items, w1)))"

text \<open>
  The \<open>do ... while\<close> of the destructor. \<open>answers i\<close> is what the \<open>i\<close>-th call of
  \<open>waitpid\<close> reports. The loop need not end: \<open>None\<close> is the run that never leaves it.
\<close>

partial_function (option) wait_loop ::
  "int \<Rightarrow> (nat \<Rightarrow> wait_answer) \<Rightarrow> nat \<Rightarrow> int option \<Rightarrow> world \<Rightarrow> ((int \<times> int option) \<times> world) option" where
  "wait_loop pid answers i pstat w =
     (let ((ret, pstat'), w1) = sys_waitpid pid 0 (answers i) pstat w in
      if ret = - 1 \<and> errno w1 = EINTR then wait_loop pid answers (Suc i) pstat' w1
      else Some ((ret, pstat'), w1))"

text \<open>
  The destructor. \<open>pstat\<close> starts indeterminate (\<open>None\<close>). The destructor has no
  handler: an exception of \<open>reset_fd_flags\<close> leaves it (\<open>Inl\<close>), which for a
  destructor, implicitly \<open>noexcept\<close> since C++11, ends the process in
  \<open>std::terminate\<close>.
\<close>

definition sink_impl_dtor ::
  "(nat \<Rightarrow> wait_answer) \<Rightarrow> sink_impl \<Rightarrow> world \<Rightarrow> ((abrupt + unit) \<times> world) option" where
  "sink_impl_dtor answers s w =
     (case reset_fd_flags (snd (d_cmd_stdin_pipe s)) O_NONBLOCK w of
        (Inl x, w1) \<Rightarrow> Some (Inl x, w1)
      | (Inr _, w1) \<Rightarrow>
          if \<not> live (d_cmd_stdin s) w1 then Some (Inl Undefined_behaviour, w1)
          else
            let w2 = lib_fclose (d_cmd_stdin s) w1 in
            (case wait_loop (d_cmd_pid s) answers 0 None w2 of
               None \<Rightarrow> None
             | Some ((ret, pstat), w3) \<Rightarrow>
                 if ret = - 1 then Some (Inr (), perror ''waitpid()'' w3)
                 else
                   (case pstat of
                      None \<Rightarrow> Some (Inl Undefined_behaviour, w3)
                    | Some status \<Rightarrow>
                        if WIFEXITED status
                        then Some (Inr (),
                               cerr ''Process exited with code '' (Some (WEXITSTATUS status)) w3)
                        else Some (Inr (),
                               cerr ''Abnormal process termination'' None w3))))"

subsection \<open>Concrete runs\<close>

text \<open>
  The inputs at which the theorems below are instantiated: the object before
  construction, a process with its three standard descriptors, the answers of a
  spawn that succeeds (descriptors 3 and 4, child 100), of one whose \<open>fork\<close>
  fails and of one followed into a child whose \<open>execl\<close> fails, a sink as a
  successful construction leaves it, and the world it then lives in.
\<close>

definition raw_sink :: sink_impl where
  "raw_sink =
     \<lparr>d_in_item_sz = 0, d_cmd_stdin_pipe = (0, 0), d_cmd_pid = 0,
      d_cmd_stdin = NULL, d_unbuffered = False\<rparr>"

definition initial_world :: world where
  "initial_world =
     \<lparr>fdtab = [0 \<mapsto> \<lparr>status_flags = 2, descriptor_flags = 0\<rparr>,
               1 \<mapsto> \<lparr>status_flags = 2, descriptor_flags = 0\<rparr>,
               2 \<mapsto> \<lparr>status_flags = 2, descriptor_flags = 0\<rparr>],
      streams = Map.empty, errno = 0, trace = []\<rparr>"

definition spawn_ok :: spawn_answers where
  "spawn_ok =
     \<lparr>pipe_answer = Inr (3, 4), fork_answer = Inr 100,
      execl_answer = None, fdopen_answer = None\<rparr>"

definition fork_fails :: spawn_answers where
  "fork_fails = spawn_ok\<lparr>fork_answer := Inl EAGAIN\<rparr>"

definition exec_fails :: spawn_answers where
  "exec_fails = spawn_ok\<lparr>fork_answer := Inr 0, execl_answer := Some 2\<rparr>"

definition running_sink :: sink_impl where
  "running_sink =
     \<lparr>d_in_item_sz = 8, d_cmd_stdin_pipe = (3, 4), d_cmd_pid = 100,
      d_cmd_stdin = FILE 4, d_unbuffered = False\<rparr>"

definition running_world :: world where
  "running_world =
     \<lparr>fdtab = [4 \<mapsto> \<lparr>status_flags = O_WRONLY OR O_NONBLOCK, descriptor_flags = FD_CLOEXEC\<rparr>],
      streams = [4 \<mapsto> False], errno = 0, trace = []\<rparr>"

text \<open>\<open>waitpid\<close> is interrupted \<open>k\<close> times and then answers \<open>a\<close>.\<close>

definition eintr_then :: "nat \<Rightarrow> wait_answer \<Rightarrow> nat \<Rightarrow> wait_answer" where
  "eintr_then k a i = (if i < k then Wait_fails EINTR else a)"

text \<open>The world after a \<open>waitpid\<close> on \<open>pid\<close> that a signal interrupted.\<close>

definition interrupted :: "int \<Rightarrow> world \<Rightarrow> world" where
  "interrupted pid w = (emit (Sys_waitpid pid 0) w)\<lparr>errno := EINTR\<rparr>"

section \<open>Properties\<close>

subsection \<open>The world after a library call\<close>

lemma trace_emit [simp]: "trace (emit e w) = trace w @ [e]"
  and fdtab_emit [simp]: "fdtab (emit e w) = fdtab w"
  and streams_emit [simp]: "streams (emit e w) = streams w"
  and errno_emit [simp]: "errno (emit e w) = errno w"
  by (simp_all add: emit_def)

lemma fst_lib_fwrite:
  "fst (lib_fwrite f sz nmemb a w) =
     (if sz = 0 \<or> nmemb = 0 then 0 else fwrite_accepted_bytes sz nmemb a div sz)"
  by (cases a) (simp_all add: lib_fwrite_def fwrite_accepted_bytes_def Let_def)

lemma trace_lib_fwrite:
  "trace (snd (lib_fwrite f sz nmemb a w)) = trace w @ [Lib_fwrite f sz nmemb]"
  by (cases a; cases f) (simp_all add: lib_fwrite_def set_error_indicator_def Let_def)

lemma fdtab_lib_fwrite: "fdtab (snd (lib_fwrite f sz nmemb a w)) = fdtab w"
  by (cases a; cases f) (simp_all add: lib_fwrite_def set_error_indicator_def Let_def)

lemma fdtab_lib_fflush: "fdtab (lib_fflush f a w) = fdtab w"
  by (cases a; cases f) (simp_all add: lib_fflush_def set_error_indicator_def Let_def)

lemma int_of_size_t_0: "int_of_size_t 0 = 0"
  by (simp add: int_of_size_t_def)

subsection \<open>The descriptor-flag helpers\<close>


lemma setfl_after_and_not:
  "((F :: int) AND NOT M) OR ((F AND NOT flag) AND M) = F AND NOT (flag AND M)"
  by (auto simp add: bit_eq_iff bit_simps)

lemma O_WRONLY_valid: "O_WRONLY \<noteq> - 1"
  by (simp add: O_WRONLY_def)

lemma setfl_nonblock_on_pipe:
  "(O_WRONLY AND NOT SETFL_MASK) OR ((O_WRONLY OR O_NONBLOCK) AND SETFL_MASK) =
     O_WRONLY OR O_NONBLOCK"
  by (simp add: SETFL_MASK_def O_WRONLY_def O_APPEND_def O_ASYNC_def O_DIRECT_def
      O_NOATIME_def O_NONBLOCK_def)


lemma reset_fd_flags_open:
  assumes "fdtab w d = Some e" and "status_flags e \<noteq> - 1"
  shows "reset_fd_flags d flag w =
           (Inr (),
            w\<lparr>fdtab := (fdtab w)
                  (d \<mapsto> e\<lparr>status_flags := status_flags e AND NOT (flag AND SETFL_MASK)\<rparr>),
              trace := trace w @ [Fcntl_GETFL d, Fcntl_SETFL d (status_flags e AND NOT flag)]\<rparr>)"
  using assms
  by (simp add: reset_fd_flags_def fcntl_getfl_def fcntl_setfl_def emit_def
      setfl_after_and_not)

lemma reset_fd_flags_closed:
  assumes "fdtab w d = None"
  shows "reset_fd_flags d flag w =
           (Inl (Runtime_error ''fcntl() error''),
            w\<lparr>errno := EBADF, trace := trace w @ [Fcntl_GETFL d, Perror ''fcntl()'']\<rparr>)"
  using assms by (simp add: reset_fd_flags_def fcntl_getfl_def perror_def emit_def)

lemma reset_fd_flags_minus_one:
  assumes "fdtab w d = Some e" and "status_flags e = - 1"
  shows "reset_fd_flags d flag w =
           (Inl (Runtime_error ''fcntl() error''),
            w\<lparr>trace := trace w @ [Fcntl_GETFL d, Perror ''fcntl()'']\<rparr>)"
  using assms by (simp add: reset_fd_flags_def fcntl_getfl_def perror_def emit_def)




subsection \<open>Construction\<close>

lemma trace_sys_dup2: "trace (sys_dup2 a b w) = trace w @ [Sys_dup2 a b]"
  by (simp add: sys_dup2_def Let_def split: option.split)

lemma trace_sys_close: "trace (sys_close a w) = trace w @ [Sys_close a]"
  by (simp add: sys_close_def Let_def split: option.split)

lemma create_pipe_ok:
  "create_pipe (Inr (r, wr)) p w =
     (Inr (r, wr),
      w\<lparr>fdtab := (fdtab w)
            (r \<mapsto> \<lparr>status_flags = O_RDONLY, descriptor_flags = 0\<rparr>,
             wr \<mapsto> \<lparr>status_flags = O_WRONLY, descriptor_flags = 0\<rparr>),
        trace := trace w @ [Sys_pipe]\<rparr>)"
  by (simp add: create_pipe_def sys_pipe_def emit_def)

lemma create_fork_failure:
  assumes "pipe_answer ans = Inr (r, wr)" and "fork_answer ans = Inl e"
  shows "create_command_process cmd ans s w =
     (Inr (s\<lparr>d_cmd_stdin_pipe := (r, wr), d_cmd_pid := - 1\<rparr>),
      w\<lparr>fdtab := (fdtab w)
            (r \<mapsto> \<lparr>status_flags = O_RDONLY, descriptor_flags = 0\<rparr>,
             wr \<mapsto> \<lparr>status_flags = O_WRONLY, descriptor_flags = 0\<rparr>),
        errno := e,
        trace := trace w @ [Sys_pipe, Sys_fork, Perror ''fork()'']\<rparr>)"
  using assms
  by (simp add: create_command_process_def create_pipe_ok sys_fork_def perror_def emit_def)

lemma create_child_exec_failure:
  assumes "pipe_answer ans = Inr (r, wr)" and "fork_answer ans = Inr 0"
    and "execl_answer ans = Some e"
  shows "fst (create_command_process cmd ans s w) = Inl (Process_exit EXIT_FAILURE)"
    and "trace (snd (create_command_process cmd ans s w)) =
       trace w @ [Sys_pipe, Sys_fork, Sys_dup2 r STDIN_FILENO, Sys_close r, Sys_close wr,
         Sys_execl ''/bin/sh'' [''sh'', ''-c'', cmd], Perror ''execl()'', Sys_exit EXIT_FAILURE]"
  using assms
  by (simp_all add: create_command_process_def create_pipe_ok sys_fork_def sys_execl_def
      sys_exit_def perror_def Let_def trace_sys_dup2 trace_sys_close)

lemma create_parent:
  assumes "pipe_answer ans = Inr (r, wr)" and "r \<noteq> wr"
    and "fork_answer ans = Inr pid" and "pid \<noteq> - 1" and "pid \<noteq> 0"
  shows "create_command_process cmd ans s w =
     (case fdopen_answer ans of
        None \<Rightarrow>
          (Inr (s\<lparr>d_cmd_stdin_pipe := (r, wr), d_cmd_pid := pid, d_cmd_stdin := FILE wr\<rparr>),
           w\<lparr>fdtab := (fdtab w)
                 (r := None,
                  wr \<mapsto> \<lparr>status_flags = O_WRONLY OR O_NONBLOCK, descriptor_flags = FD_CLOEXEC\<rparr>),
             streams := (streams w)(wr \<mapsto> False),
             trace := trace w @ [Sys_pipe, Sys_fork, Sys_close r, Fcntl_GETFL wr,
               Fcntl_SETFL wr (O_WRONLY OR O_NONBLOCK), Fcntl_SETFD wr FD_CLOEXEC,
               Lib_fdopen wr ''w'']\<rparr>)
      | Some err \<Rightarrow>
          (Inl (Runtime_error ''fdopen() error''),
           w\<lparr>fdtab := (fdtab w)
                 (r := None,
                  wr \<mapsto> \<lparr>status_flags = O_WRONLY OR O_NONBLOCK, descriptor_flags = FD_CLOEXEC\<rparr>),
             errno := err,
             trace := trace w @ [Sys_pipe, Sys_fork, Sys_close r, Fcntl_GETFL wr,
               Fcntl_SETFL wr (O_WRONLY OR O_NONBLOCK), Fcntl_SETFD wr FD_CLOEXEC,
               Lib_fdopen wr ''w'', Perror ''fdopen()'']\<rparr>))"
  using assms
  by (cases "fdopen_answer ans")
    (simp_all add: create_command_process_def create_pipe_ok sys_fork_def Let_def
      set_fd_flags_def fcntl_getfl_def fcntl_setfl_def fcntl_setfd_def lib_fdopen_def
      sys_close_def perror_def emit_def setfl_nonblock_on_pipe O_WRONLY_valid)

text \<open>
  C1. The claim is that a failing \<open>fork\<close> fails the construction. The code
  prints the error and returns: the constructor completes, and the sink it
  leaves has \<open>d_cmd_pid = -1\<close>, a \<open>d_cmd_stdin\<close> that was never assigned, and both
  ends of the pipe still open.
\<close>

theorem fork_failure_completes_construction:
  assumes "pipe_answer ans = Inr (r, wr)" and "fork_answer ans = Inl e"
  shows "\<exists>s w'. sink_impl_ctor in_item_sz cmd ans s0 w = (Inr s, w') \<and>
           d_cmd_pid s = - 1 \<and> d_cmd_stdin s = d_cmd_stdin s0 \<and>
           fdtab w' r \<noteq> None \<and> fdtab w' wr \<noteq> None \<and>
           trace w' = trace w @ [Sys_pipe, Sys_fork, Perror ''fork()'']"
  using create_fork_failure [OF assms, of cmd "s0\<lparr>d_in_item_sz := in_item_sz\<rparr>" w]
  by (simp add: sink_impl_ctor_def)

theorem fork_failure_completes_construction_witness:
  "pipe_answer fork_fails = Inr (3, 4) \<and> fork_answer fork_fails = Inl EAGAIN \<and>
   (\<exists>s w'. sink_impl_ctor 8 ''cat'' fork_fails raw_sink initial_world = (Inr s, w') \<and>
      d_cmd_pid s = - 1 \<and> d_cmd_stdin s = NULL \<and>
      fdtab w' 3 \<noteq> None \<and> fdtab w' 4 \<noteq> None \<and>
      trace w' = [Sys_pipe, Sys_fork, Perror ''fork()''])"
proof -
  have p: "pipe_answer fork_fails = Inr (3, 4)" and f: "fork_answer fork_fails = Inl EAGAIN"
    by (simp_all add: fork_fails_def spawn_ok_def)
  show ?thesis
    using fork_failure_completes_construction [OF p f, of 8 "''cat''" raw_sink initial_world] p f
    by (simp add: raw_sink_def initial_world_def)
qed

text \<open>
  C7. In the child (\<open>fork\<close> returned 0), when \<open>execl\<close> fails the call ends in
  \<open>exit(EXIT_FAILURE)\<close>, a non-zero status, right after the \<open>perror\<close>: it does not
  return to the constructor's caller, and none of the parent's calls
  (\<open>fcntl\<close>, \<open>fdopen\<close>) is made.
\<close>

theorem child_exits_when_exec_fails:
  assumes "pipe_answer ans = Inr (r, wr)" and "fork_answer ans = Inr 0"
    and "execl_answer ans = Some e"
  shows "fst (sink_impl_ctor in_item_sz cmd ans s0 w) = Inl (Process_exit EXIT_FAILURE) \<and>
         EXIT_FAILURE \<noteq> 0 \<and>
         trace (snd (sink_impl_ctor in_item_sz cmd ans s0 w)) =
           trace w @ [Sys_pipe, Sys_fork, Sys_dup2 r STDIN_FILENO, Sys_close r, Sys_close wr,
             Sys_execl ''/bin/sh'' [''sh'', ''-c'', cmd], Perror ''execl()'',
             Sys_exit EXIT_FAILURE]"
  using create_child_exec_failure [OF assms, of cmd "s0\<lparr>d_in_item_sz := in_item_sz\<rparr>" w]
  by (simp add: sink_impl_ctor_def EXIT_FAILURE_def)

theorem child_exits_when_exec_fails_witness:
  "pipe_answer exec_fails = Inr (3, 4) \<and> fork_answer exec_fails = Inr 0 \<and>
   execl_answer exec_fails = Some 2 \<and>
   fst (sink_impl_ctor 8 ''cat'' exec_fails raw_sink initial_world) = Inl (Process_exit 1) \<and>
   trace (snd (sink_impl_ctor 8 ''cat'' exec_fails raw_sink initial_world)) =
     [Sys_pipe, Sys_fork, Sys_dup2 3 0, Sys_close 3, Sys_close 4,
      Sys_execl ''/bin/sh'' [''sh'', ''-c'', ''cat''], Perror ''execl()'', Sys_exit 1]"
proof -
  have p: "pipe_answer exec_fails = Inr (3, 4)" and f: "fork_answer exec_fails = Inr 0"
    and x: "execl_answer exec_fails = Some 2"
    by (simp_all add: exec_fails_def spawn_ok_def)
  show ?thesis
    using child_exits_when_exec_fails [OF p f x, of 8 "''cat''" raw_sink initial_world] p f x
    by (simp add: initial_world_def EXIT_FAILURE_def STDIN_FILENO_def)
qed

lemma fdtab_write_process_input:
  "fdtab (snd (write_process_input inp n a s w)) = fdtab w"
  by (simp add: write_process_input_def Let_def split_beta fdtab_lib_fwrite fdtab_lib_fflush)

text \<open>
  C8. In the parent (\<open>fork\<close> returned a pid), on the two distinct descriptors of
  the new pipe: the first call after \<open>fork\<close> closes the read end; then the write
  end gets \<open>O_NONBLOCK\<close> added to its status flags, then \<open>FD_CLOEXEC\<close>, then
  \<open>fdopen\<close> in mode \<open>w\<close>, in this order and whatever \<open>fdopen\<close> answers. When
  \<open>fdopen\<close> succeeds the sink holds the pid, the pipe and the stream. The read
  end is then closed in the parent, and a later write does not reopen it.
\<close>

theorem parent_sets_up_write_end:
  assumes "pipe_answer ans = Inr (r, wr)" and "r \<noteq> wr"
    and "fork_answer ans = Inr pid" and "pid \<noteq> - 1" and "pid \<noteq> 0"
  shows "trace (snd (create_command_process cmd ans s w)) =
           trace w @ [Sys_pipe, Sys_fork, Sys_close r, Fcntl_GETFL wr,
             Fcntl_SETFL wr (O_WRONLY OR O_NONBLOCK), Fcntl_SETFD wr FD_CLOEXEC,
             Lib_fdopen wr ''w''] @
             (case fdopen_answer ans of None \<Rightarrow> [] | Some _ \<Rightarrow> [Perror ''fdopen()'']) \<and>
         fdtab (snd (create_command_process cmd ans s w)) =
           (fdtab w)(r := None,
             wr \<mapsto> \<lparr>status_flags = O_WRONLY OR O_NONBLOCK, descriptor_flags = FD_CLOEXEC\<rparr>) \<and>
         fst (create_command_process cmd ans s w) =
           (case fdopen_answer ans of
              None \<Rightarrow> Inr (s\<lparr>d_cmd_stdin_pipe := (r, wr), d_cmd_pid := pid,
                              d_cmd_stdin := FILE wr\<rparr>)
            | Some _ \<Rightarrow> Inl (Runtime_error ''fdopen() error'')) \<and>
         (case fdopen_answer ans of
            None \<Rightarrow> streams (snd (create_command_process cmd ans s w)) wr = Some False
          | Some _ \<Rightarrow> True) \<and>
         fdtab (snd (write_process_input inp n wa s' (snd (create_command_process cmd ans s w)))) r
           = None"
  using create_parent [OF assms, of cmd s w] assms(2)
  by (cases "fdopen_answer ans") (simp_all add: fdtab_write_process_input)

theorem parent_sets_up_write_end_witness:
  "pipe_answer spawn_ok = Inr (3, 4) \<and> (3 :: int) \<noteq> 4 \<and> fork_answer spawn_ok = Inr 100 \<and>
   (100 :: int) \<noteq> - 1 \<and> (100 :: int) \<noteq> 0 \<and>
   trace (snd (create_command_process ''cat'' spawn_ok raw_sink initial_world)) =
     [Sys_pipe, Sys_fork, Sys_close 3, Fcntl_GETFL 4, Fcntl_SETFL 4 2049, Fcntl_SETFD 4 1,
      Lib_fdopen 4 ''w''] \<and>
   fdtab (snd (create_command_process ''cat'' spawn_ok raw_sink initial_world)) 3 = None \<and>
   fdtab (snd (create_command_process ''cat'' spawn_ok raw_sink initial_world)) 4 =
     Some \<lparr>status_flags = 2049, descriptor_flags = 1\<rparr> \<and>
   fst (create_command_process ''cat'' spawn_ok raw_sink initial_world) =
     Inr (raw_sink\<lparr>d_cmd_stdin_pipe := (3, 4), d_cmd_pid := 100, d_cmd_stdin := FILE 4\<rparr>) \<and>
   streams (snd (create_command_process ''cat'' spawn_ok raw_sink initial_world)) 4 = Some False"
proof -
  have p: "pipe_answer spawn_ok = Inr (3, 4)" and f: "fork_answer spawn_ok = Inr 100"
    and o: "fdopen_answer spawn_ok = None"
    by (simp_all add: spawn_ok_def)
  have d: "(3 :: int) \<noteq> 4" and n1: "(100 :: int) \<noteq> - 1" and n0: "(100 :: int) \<noteq> 0"
    by simp_all
  show ?thesis
    using parent_sets_up_write_end [OF p d f n1 n0, of "''cat''" raw_sink initial_world] p f o
    by (simp add: initial_world_def O_WRONLY_def O_NONBLOCK_def FD_CLOEXEC_def)
qed


subsection \<open>Writing\<close>

lemma work_value: "fst (work n items ans s w) = Inr v \<Longrightarrow> v = n"
  by (auto simp add: work_def split: list.splits prod.splits sum.splits)

lemma work_returns:
  "fst (write_process_input inp n ans s w) = Inr c \<Longrightarrow>
     fst (work n (inp # rest) ans s w) = Inr n"
  by (auto simp add: work_def split: prod.splits sum.splits)

text \<open>
  C2. Whatever \<open>work\<close> returns is the requested count \<open>noutput_items\<close>, and it
  returns it whenever the write returns at all, whatever count \<open>c\<close> of records
  the write reports as accepted.
\<close>

theorem work_returns_requested_count:
  "(fst (work n items ans s w) = Inr v \<longrightarrow> v = n) \<and>
   (fst (write_process_input inp n ans s w) = Inr c \<longrightarrow>
      fst (work n (inp # rest) ans s w) = Inr n)"
  using work_value [of n items ans s w v] work_returns [of inp n ans s w c rest]
  by blast

theorem work_returns_requested_count_witness:
  "fst (write_process_input (replicate 40 0) 5
          \<lparr>fwrite_answer = Fwrite_error 0 EAGAIN, fflush_answer = None\<rparr>
          running_sink running_world) = Inr 0 \<and>
   fst (work 5 [replicate 40 0]
          \<lparr>fwrite_answer = Fwrite_error 0 EAGAIN, fflush_answer = None\<rparr>
          running_sink running_world) = Inr 5 \<and>
   fst (write_process_input (replicate 40 0) 5
          \<lparr>fwrite_answer = Fwrite_error 24 EAGAIN, fflush_answer = None\<rparr>
          running_sink running_world) = Inr 3 \<and>
   fst (work 5 [replicate 40 0]
          \<lparr>fwrite_answer = Fwrite_error 24 EAGAIN, fflush_answer = None\<rparr>
          running_sink running_world) = Inr 5"
proof -
  have blocked: "fst (write_process_input (replicate 40 0) 5
          \<lparr>fwrite_answer = Fwrite_error 0 EAGAIN, fflush_answer = None\<rparr>
          running_sink running_world) = Inr 0"
    by (simp add: write_process_input_def running_sink_def running_world_def live_def
        lib_fwrite_def fwrite_accepted_bytes_def size_t_of_int_def int_of_size_t_def Let_def
        ferror_def set_error_indicator_def emit_def)
  have partial: "fst (write_process_input (replicate 40 0) 5
          \<lparr>fwrite_answer = Fwrite_error 24 EAGAIN, fflush_answer = None\<rparr>
          running_sink running_world) = Inr 3"
    by (simp add: write_process_input_def running_sink_def running_world_def live_def
        lib_fwrite_def fwrite_accepted_bytes_def size_t_of_int_def int_of_size_t_def Let_def
        ferror_def set_error_indicator_def emit_def)
  show ?thesis
    using blocked partial
      work_returns_requested_count [of 5 "[replicate 40 0]"
        "\<lparr>fwrite_answer = Fwrite_error 0 EAGAIN, fflush_answer = None\<rparr>"
        running_sink running_world 5 "replicate 40 0" 0 "[]"]
      work_returns_requested_count [of 5 "[replicate 40 0]"
        "\<lparr>fwrite_answer = Fwrite_error 24 EAGAIN, fflush_answer = None\<rparr>"
        running_sink running_world 5 "replicate 40 0" 3 "[]"]
    by simp
qed


lemma write_fatal:
  fixes s :: sink_impl and w :: world and nitems :: int and ans :: write_answers
  assumes "live (d_cmd_stdin s) w"
  defines "fw \<equiv> lib_fwrite (d_cmd_stdin s) (d_in_item_sz s) (size_t_of_int nitems)
                   (fwrite_answer ans) w"
  shows "(fst (write_process_input inp nitems ans s w) = Inl (Runtime_error ''fwrite() error'')) =
           (fst fw = 0 \<and> ferror (d_cmd_stdin s) (snd fw) \<and>
            errno (snd fw) \<noteq> EAGAIN \<and> errno (snd fw) \<noteq> EWOULDBLOCK)"
  using assms by (simp add: write_process_input_def Let_def split_beta)

lemma write_would_block:
  fixes s :: sink_impl and w :: world and nitems :: int and ans :: write_answers
  assumes "live (d_cmd_stdin s) w"
  defines "fw \<equiv> lib_fwrite (d_cmd_stdin s) (d_in_item_sz s) (size_t_of_int nitems)
                   (fwrite_answer ans) w"
  assumes "fst fw = 0" and "errno (snd fw) = EAGAIN \<or> errno (snd fw) = EWOULDBLOCK"
  shows "fst (write_process_input inp nitems ans s w) = Inr 0"
  using assms by (auto simp add: write_process_input_def Let_def split_beta int_of_size_t_0)

text \<open>
  C4, as the claim has it: the write raises only if the stream accepted zero
  bytes. It raises here after a write error that came when 4 bytes of an 8-byte
  record had been accepted: \<open>fwrite\<close> counts whole records and returns 0.
\<close>

theorem write_raises_after_partial_record:
  "fst (write_process_input (replicate 8 0) 1
          \<lparr>fwrite_answer = Fwrite_error 4 EPIPE, fflush_answer = None\<rparr>
          running_sink running_world) = Inl (Runtime_error ''fwrite() error'') \<and>
   fwrite_accepted_bytes (d_in_item_sz running_sink) (size_t_of_int 1) (Fwrite_error 4 EPIPE) = 4"
  by (simp add: write_process_input_def running_sink_def running_world_def live_def
      lib_fwrite_def fwrite_accepted_bytes_def size_t_of_int_def Let_def ferror_def
      set_error_indicator_def emit_def EPIPE_def EAGAIN_def EWOULDBLOCK_def)

text \<open>
  C4, amended. On an open stream the write raises the \<open>fwrite() error\<close> exactly
  when \<open>fwrite\<close> returns 0 (no whole record was accepted: the accepted bytes
  divided by the record size, and 0 for an empty request), the stream's error
  indicator is set and \<open>errno\<close> is neither \<open>EAGAIN\<close> nor \<open>EWOULDBLOCK\<close>. When
  \<open>fwrite\<close> returns 0 and \<open>errno\<close> is one of the two, the write returns 0
  records. Zero accepted bytes are zero accepted records.
\<close>

theorem write_raises_iff_no_record_accepted:
  fixes s :: sink_impl and w :: world and nitems :: int and ans :: write_answers
  assumes "live (d_cmd_stdin s) w"
  defines "fw \<equiv> lib_fwrite (d_cmd_stdin s) (d_in_item_sz s) (size_t_of_int nitems)
                   (fwrite_answer ans) w"
  shows "(fst (write_process_input inp nitems ans s w) = Inl (Runtime_error ''fwrite() error'')
            \<longleftrightarrow> fst fw = 0 \<and> ferror (d_cmd_stdin s) (snd fw) \<and>
                errno (snd fw) \<noteq> EAGAIN \<and> errno (snd fw) \<noteq> EWOULDBLOCK) \<and>
         (fst fw = 0 \<and> (errno (snd fw) = EAGAIN \<or> errno (snd fw) = EWOULDBLOCK) \<longrightarrow>
            fst (write_process_input inp nitems ans s w) = Inr 0) \<and>
         fst fw =
           (if d_in_item_sz s = 0 \<or> size_t_of_int nitems = 0 then 0
            else fwrite_accepted_bytes (d_in_item_sz s) (size_t_of_int nitems) (fwrite_answer ans)
                   div d_in_item_sz s) \<and>
         (fwrite_accepted_bytes (d_in_item_sz s) (size_t_of_int nitems) (fwrite_answer ans) = 0
            \<longrightarrow> fst fw = 0)"
proof -
  have "fst (write_process_input inp nitems ans s w) = Inr 0"
    if "fst fw = 0" and "errno (snd fw) = EAGAIN \<or> errno (snd fw) = EWOULDBLOCK"
    using write_would_block [OF assms(1), of nitems ans inp] that
    by (simp add: fw_def)
  then show ?thesis
    using write_fatal [OF assms(1), of inp nitems ans]
    by (simp add: fw_def fst_lib_fwrite)
qed

theorem write_raises_iff_no_record_accepted_witness:
  "live (d_cmd_stdin running_sink) running_world \<and>
   fst (write_process_input (replicate 40 0) 5
          \<lparr>fwrite_answer = Fwrite_error 0 EAGAIN, fflush_answer = None\<rparr>
          running_sink running_world) = Inr 0 \<and>
   fst (write_process_input (replicate 40 0) 5
          \<lparr>fwrite_answer = Fwrite_error 0 EPIPE, fflush_answer = None\<rparr>
          running_sink running_world) = Inl (Runtime_error ''fwrite() error'') \<and>
   fst (write_process_input (replicate 40 0) 5
          \<lparr>fwrite_answer = Fwrite_error 9 EPIPE, fflush_answer = None\<rparr>
          running_sink running_world) \<noteq> Inl (Runtime_error ''fwrite() error'')"
proof -
  have l: "live (d_cmd_stdin running_sink) running_world"
    by (simp add: live_def running_sink_def running_world_def)
  show ?thesis
    using l
      write_raises_iff_no_record_accepted [OF l, of "replicate 40 0" 5
        "\<lparr>fwrite_answer = Fwrite_error 0 EAGAIN, fflush_answer = None\<rparr>"]
      write_raises_iff_no_record_accepted [OF l, of "replicate 40 0" 5
        "\<lparr>fwrite_answer = Fwrite_error 0 EPIPE, fflush_answer = None\<rparr>"]
      write_raises_iff_no_record_accepted [OF l, of "replicate 40 0" 5
        "\<lparr>fwrite_answer = Fwrite_error 9 EPIPE, fflush_answer = None\<rparr>"]
    by (simp add: running_sink_def running_world_def lib_fwrite_def fwrite_accepted_bytes_def
        size_t_of_int_def Let_def ferror_def set_error_indicator_def emit_def
        EPIPE_def EAGAIN_def EWOULDBLOCK_def)
qed

lemma write_unbuffered:
  "write_process_input inp n ans (set_unbuffered b s) w =
     (case write_process_input inp n ans (set_unbuffered False s) w of
        (Inl x, w1) \<Rightarrow> (Inl x, w1)
      | (Inr c, w1) \<Rightarrow>
          (Inr c, if b then lib_fflush (d_cmd_stdin s) (fflush_answer ans) w1 else w1))"
  by (simp add: write_process_input_def set_unbuffered_def Let_def split_beta)

lemma write_buffered_trace:
  "trace (snd (write_process_input inp n ans (set_unbuffered False s) w)) =
     trace w @ (if live (d_cmd_stdin s) w
                then [Lib_fwrite (d_cmd_stdin s) (d_in_item_sz s) (size_t_of_int n)] else [])"
  by (simp add: write_process_input_def set_unbuffered_def Let_def split_beta trace_lib_fwrite)

lemma dtor_unbuffered:
  "sink_impl_dtor answers (set_unbuffered b s) w = sink_impl_dtor answers s w"
  by (simp add: sink_impl_dtor_def set_unbuffered_def cong: prod.case_cong sum.case_cong if_cong)

text \<open>
  C9. \<open>unbuffered\<close> after \<open>set_unbuffered b\<close> is \<open>b\<close>, and no other member
  changes. The destructor does not read the flag. A write with the flag set is
  the write with the flag clear, followed by one \<open>fflush\<close> of the stream when
  that write returns (and by nothing when it raises); with the flag clear the
  write makes no call but \<open>fwrite\<close>.
\<close>

theorem set_unbuffered_gates_the_flush:
  "unbuffered (set_unbuffered b s) = b \<and>
   d_in_item_sz (set_unbuffered b s) = d_in_item_sz s \<and>
   d_cmd_stdin_pipe (set_unbuffered b s) = d_cmd_stdin_pipe s \<and>
   d_cmd_pid (set_unbuffered b s) = d_cmd_pid s \<and>
   d_cmd_stdin (set_unbuffered b s) = d_cmd_stdin s \<and>
   sink_impl_dtor answers (set_unbuffered b s) w = sink_impl_dtor answers s w \<and>
   write_process_input inp n ans (set_unbuffered b s) w =
     (case write_process_input inp n ans (set_unbuffered False s) w of
        (Inl x, w1) \<Rightarrow> (Inl x, w1)
      | (Inr c, w1) \<Rightarrow>
          (Inr c, if b then lib_fflush (d_cmd_stdin s) (fflush_answer ans) w1 else w1)) \<and>
   trace (snd (write_process_input inp n ans (set_unbuffered False s) w)) =
     trace w @ (if live (d_cmd_stdin s) w
                then [Lib_fwrite (d_cmd_stdin s) (d_in_item_sz s) (size_t_of_int n)] else [])"
  using dtor_unbuffered [of answers b s w] write_unbuffered [of inp n ans b s w]
    write_buffered_trace [of inp n ans s w]
  by (simp add: unbuffered_def set_unbuffered_def)

theorem set_unbuffered_gates_the_flush_witness:
  "unbuffered (set_unbuffered True running_sink) = True \<and>
   unbuffered (set_unbuffered False (set_unbuffered True running_sink)) = False \<and>
   trace (snd (write_process_input (replicate 40 0) 5
                 \<lparr>fwrite_answer = Fwrite_complete, fflush_answer = None\<rparr>
                 (set_unbuffered True running_sink) running_world)) =
     [Lib_fwrite (FILE 4) 8 5, Lib_fflush (FILE 4)] \<and>
   trace (snd (write_process_input (replicate 40 0) 5
                 \<lparr>fwrite_answer = Fwrite_complete, fflush_answer = None\<rparr>
                 (set_unbuffered False running_sink) running_world)) =
     [Lib_fwrite (FILE 4) 8 5]"
  using set_unbuffered_gates_the_flush [of True running_sink _ running_world
      "replicate 40 0" 5 "\<lparr>fwrite_answer = Fwrite_complete, fflush_answer = None\<rparr>"]
    set_unbuffered_gates_the_flush [of False "set_unbuffered True running_sink"]
  by (simp add: write_process_input_def set_unbuffered_def running_sink_def running_world_def
      live_def lib_fwrite_def lib_fflush_def size_t_of_int_def Let_def ferror_def emit_def)


subsection \<open>Teardown\<close>

text \<open>The world after one interrupted \<open>waitpid\<close>.\<close>

lemma wait_loop_retry:
  "answers i = Wait_fails EINTR \<Longrightarrow>
     wait_loop pid answers i p w =
       wait_loop pid answers (Suc i) p (interrupted pid w)"
  by (subst wait_loop.simps) (simp add: sys_waitpid_def interrupted_def)

lemma wait_loop_stop:
  "answers i \<noteq> Wait_fails EINTR \<Longrightarrow>
     wait_loop pid answers i p w = Some (sys_waitpid pid 0 (answers i) p w)"
  by (subst wait_loop.simps) (cases "answers i"; simp add: sys_waitpid_def Let_def)

lemma wait_loop_returns:
  "(\<forall>j<k. answers (i + j) = Wait_fails EINTR) \<Longrightarrow> answers (i + k) \<noteq> Wait_fails EINTR \<Longrightarrow>
     wait_loop pid answers i p w =
       Some (sys_waitpid pid 0 (answers (i + k)) p
         ((interrupted pid ^^ k) w))"
proof (induction k arbitrary: i w)
  case 0
  then show ?case by (simp add: wait_loop_stop)
next
  case (Suc k)
  have first: "answers i = Wait_fails EINTR"
    using Suc.prems(1) [rule_format, of 0] by simp
  have rest: "\<forall>j<k. answers (Suc i + j) = Wait_fails EINTR"
    using Suc.prems(1) by (metis add_Suc_shift Suc_less_eq)
  have last: "answers (Suc i + k) \<noteq> Wait_fails EINTR"
    using Suc.prems(2) by simp
  show ?case
    using Suc.IH [OF rest last, of "interrupted pid w"] first
    by (simp add: wait_loop_retry funpow_swap1)
qed

lemma trace_interrupted:
  "trace ((interrupted pid ^^ k) w) =
     trace w @ replicate k (Sys_waitpid pid 0)"
  by (induction k arbitrary: w) (simp_all add: interrupted_def funpow_swap1 replicate_append_same)

text \<open>
  What every run that leaves the loop has done: one or more \<open>waitpid\<close> calls on
  the same pid and nothing else, and a status was stored unless the last call
  failed.
\<close>

lemma wait_loop_shape:
  assumes "wait_loop pid answers i p w = Some r"
  shows "(\<exists>n. trace (snd r) = trace w @ replicate (Suc n) (Sys_waitpid pid 0)) \<and>
         (fst (fst r) = - 1 \<or> snd (fst r) \<noteq> None)"
proof (rule wait_loop.raw_induct
    [where P = "\<lambda>pid answers i p w r.
        (\<exists>n. trace (snd r) = trace w @ replicate (Suc n) (Sys_waitpid pid 0)) \<and>
        (fst (fst r) = - 1 \<or> snd (fst r) \<noteq> None)", OF _ assms], goal_cases)
  case (1 wl pid answers i p w r)
  show ?case
  proof (cases "answers i = Wait_fails EINTR")
    case True
    with 1(2)
    have "wl pid answers (Suc i) p (interrupted pid w) = Some r"
      by (simp add: sys_waitpid_def interrupted_def Let_def)
    from 1(1) [OF this] obtain n where
      "trace (snd r) = trace w @ Sys_waitpid pid 0 # replicate (Suc n) (Sys_waitpid pid 0)"
      and "fst (fst r) = - 1 \<or> snd (fst r) \<noteq> None"
      by (auto simp add: interrupted_def)
    then have "trace (snd r) = trace w @ replicate (Suc (Suc n)) (Sys_waitpid pid 0)"
      and "fst (fst r) = - 1 \<or> snd (fst r) \<noteq> None"
      by simp_all
    then show ?thesis by blast
  next
    case False
    with 1(2) have "sys_waitpid pid 0 (answers i) p w = r"
      by (cases "answers i") (simp_all add: sys_waitpid_def Let_def)
    then have "trace (snd r) = trace w @ replicate (Suc 0) (Sys_waitpid pid 0)"
      and "fst (fst r) = - 1 \<or> snd (fst r) \<noteq> None"
      by (cases "answers i"; auto simp add: sys_waitpid_def Let_def)+
    then show ?thesis by blast
  qed
qed

lemma dtor_runs:
  assumes "fdtab w (snd (d_cmd_stdin_pipe s)) = Some e" and "status_flags e \<noteq> - 1"
    and "d_cmd_stdin s = FILE d" and "streams w d \<noteq> None"
    and "\<forall>j<k. answers j = Wait_fails EINTR" and "answers k \<noteq> Wait_fails EINTR"
  shows "\<exists>w'. sink_impl_dtor answers s w = Some (Inr (), w') \<and>
           trace w' = trace w @
             [Fcntl_GETFL (snd (d_cmd_stdin_pipe s)),
              Fcntl_SETFL (snd (d_cmd_stdin_pipe s)) (status_flags e AND NOT O_NONBLOCK),
              Lib_fclose (FILE d)] @
             replicate (Suc k) (Sys_waitpid (d_cmd_pid s) 0) @
             [case answers k of
                Wait_fails _ \<Rightarrow> Perror ''waitpid()''
              | Wait_reaps _ status \<Rightarrow>
                  if WIFEXITED status
                  then Cerr ''Process exited with code '' (Some (WEXITSTATUS status))
                  else Cerr ''Abnormal process termination'' None]"
proof -
  let ?wr = "snd (d_cmd_stdin_pipe s)"
  define w1 where "w1 = snd (reset_fd_flags ?wr O_NONBLOCK w)"
  define w2 where "w2 = lib_fclose (FILE d) w1"
  define w3 where "w3 = (interrupted (d_cmd_pid s) ^^ k) w2"
  have r: "reset_fd_flags ?wr O_NONBLOCK w = (Inr (), w1)"
    and t1: "trace w1 = trace w @
        [Fcntl_GETFL ?wr, Fcntl_SETFL ?wr (status_flags e AND NOT O_NONBLOCK)]"
    and s1: "streams w1 = streams w"
    unfolding w1_def by (simp_all add: reset_fd_flags_open [OF assms(1,2)])
  have l: "live (d_cmd_stdin s) w1"
    using assms(3,4) s1 by (simp add: live_def)
  have t2: "trace w2 = trace w1 @ [Lib_fclose (FILE d)]"
    by (simp add: w2_def lib_fclose_def Let_def)
  have t3: "trace w3 = trace w2 @ replicate k (Sys_waitpid (d_cmd_pid s) 0)"
    by (simp add: w3_def trace_interrupted)
  have wl: "wait_loop (d_cmd_pid s) answers 0 None w2 =
      Some (sys_waitpid (d_cmd_pid s) 0 (answers k) None w3)"
    using wait_loop_returns [of k answers 0 "d_cmd_pid s" None w2] assms(5,6)
    by (simp add: w3_def)
  show ?thesis
  proof (cases "answers k")
    case (Wait_fails err)
    then show ?thesis
      using r l wl t1 t2 t3 assms(3)
      by (simp add: sink_impl_dtor_def w2_def sys_waitpid_def perror_def Let_def
          replicate_append_same)
  next
    case (Wait_reaps p status)
    then show ?thesis
      using r l wl t1 t2 t3 assms(3)
      by (simp add: sink_impl_dtor_def w2_def sys_waitpid_def cerr_def Let_def
          replicate_append_same)
  qed
qed

lemma dtor_shape:
  assumes "sink_impl_dtor answers s w = Some (res, w')"
  shows "(\<exists>e n rep. fdtab w (snd (d_cmd_stdin_pipe s)) = Some e \<and> res = Inr () \<and>
            trace w' = trace w @
              [Fcntl_GETFL (snd (d_cmd_stdin_pipe s)),
               Fcntl_SETFL (snd (d_cmd_stdin_pipe s)) (status_flags e AND NOT O_NONBLOCK),
               Lib_fclose (d_cmd_stdin s)] @
              replicate (Suc n) (Sys_waitpid (d_cmd_pid s) 0) @ [rep] \<and>
            (rep = Perror ''waitpid()'' \<or> (\<exists>m c. rep = Cerr m c)) \<and>
            (status_flags e AND NOT O_NONBLOCK) AND O_NONBLOCK = 0)
       \<or> (\<exists>x. res = Inl x \<and>
            (\<forall>ev \<in> set (drop (length (trace w)) (trace w')).
               (\<forall>f. ev \<noteq> Lib_fclose f) \<and> (\<forall>p opt. ev \<noteq> Sys_waitpid p opt)))"
proof (cases "fdtab w (snd (d_cmd_stdin_pipe s))")
  case None
  with assms show ?thesis
    by (auto simp add: sink_impl_dtor_def reset_fd_flags_closed)
next
  case (Some e)
  show ?thesis
  proof (cases "status_flags e = - 1")
    case True
    with Some assms show ?thesis
      by (auto simp add: sink_impl_dtor_def reset_fd_flags_minus_one)
  next
    case False
    let ?wr = "snd (d_cmd_stdin_pipe s)"
    define w1 where "w1 = snd (reset_fd_flags ?wr O_NONBLOCK w)"
    have r: "reset_fd_flags ?wr O_NONBLOCK w = (Inr (), w1)"
      and t1: "trace w1 = trace w @
          [Fcntl_GETFL ?wr, Fcntl_SETFL ?wr (status_flags e AND NOT O_NONBLOCK)]"
      unfolding w1_def by (simp_all add: reset_fd_flags_open [OF Some False])
    show ?thesis
    proof (cases "live (d_cmd_stdin s) w1")
      case nl: False
      with assms r t1 show ?thesis
        by (auto simp add: sink_impl_dtor_def)
    next
      case l: True
      define w2 where "w2 = lib_fclose (d_cmd_stdin s) w1"
      have t2: "trace w2 = trace w1 @ [Lib_fclose (d_cmd_stdin s)]"
        by (simp add: w2_def lib_fclose_def Let_def split: file_ptr.split)
      from assms r l obtain ret pstat w3 where
        wl: "wait_loop (d_cmd_pid s) answers 0 None w2 = Some ((ret, pstat), w3)"
        by (auto simp add: sink_impl_dtor_def w2_def Let_def split: option.splits)
      from wait_loop_shape [OF wl] obtain n where
        t3: "trace w3 = trace w2 @ replicate (Suc n) (Sys_waitpid (d_cmd_pid s) 0)"
        and p: "ret = - 1 \<or> pstat \<noteq> None"
        by auto
      have "res = Inr () \<and> (\<exists>rep. trace w' = trace w3 @ [rep] \<and>
          (rep = Perror ''waitpid()'' \<or> (\<exists>m c. rep = Cerr m c)))"
        using assms r l wl p
        by (auto simp add: sink_impl_dtor_def w2_def [symmetric] perror_def cerr_def
            split: if_splits option.splits)
      moreover have "(status_flags e AND NOT O_NONBLOCK) AND O_NONBLOCK = 0"
        by (simp add: bit_eq_iff bit_simps)
      ultimately show ?thesis
        using Some t1 t2 t3 by auto
    qed
  qed
qed


text \<open>
  C3. The claim is that teardown never lets an exception out. When \<open>fcntl\<close>
  fails on the write descriptor (here: the descriptor is not open),
  \<open>reset_fd_flags\<close> throws \<open>std::runtime_error\<close> and the destructor lets it
  through: it ends with that exception after the \<open>perror\<close>, having neither
  closed the stream nor waited for the child.
\<close>

theorem teardown_throws_when_fcntl_fails:
  assumes "fdtab w (snd (d_cmd_stdin_pipe s)) = None"
  shows "sink_impl_dtor answers s w =
           Some (Inl (Runtime_error ''fcntl() error''),
                 w\<lparr>errno := EBADF,
                   trace := trace w @
                     [Fcntl_GETFL (snd (d_cmd_stdin_pipe s)), Perror ''fcntl()'']\<rparr>)"
  using assms by (simp add: sink_impl_dtor_def reset_fd_flags_closed)

theorem teardown_throws_when_fcntl_fails_witness:
  "fdtab (running_world\<lparr>fdtab := Map.empty\<rparr>) (snd (d_cmd_stdin_pipe running_sink)) = None \<and>
   map_option fst
     (sink_impl_dtor (eintr_then 0 (Wait_reaps 100 0)) running_sink
        (running_world\<lparr>fdtab := Map.empty\<rparr>)) =
     Some (Inl (Runtime_error ''fcntl() error'')) \<and>
   map_option (trace \<circ> snd)
     (sink_impl_dtor (eintr_then 0 (Wait_reaps 100 0)) running_sink
        (running_world\<lparr>fdtab := Map.empty\<rparr>)) =
     Some [Fcntl_GETFL 4, Perror ''fcntl()'']"
proof -
  have closed: "fdtab (running_world\<lparr>fdtab := Map.empty\<rparr>) (snd (d_cmd_stdin_pipe running_sink))
      = None"
    by simp
  show ?thesis
    using teardown_throws_when_fcntl_fails [OF closed, of "eintr_then 0 (Wait_reaps 100 0)"]
    by (simp add: running_sink_def running_world_def)
qed

text \<open>
  C5. A sink built by a spawn whose \<open>fork\<close> returned the child's pid is torn
  down in a world where its write descriptor and stream are open, and \<open>waitpid\<close>
  is interrupted \<open>k\<close> times before it answers. Then the destructor returns; it
  has called \<open>waitpid\<close> \<open>k + 1\<close> times, each time on that pid with no options;
  and after the last call it has written one report: only the \<open>perror\<close> of
  \<open>waitpid\<close> when that call failed, the exit code or the abnormal termination
  otherwise.
\<close>

theorem teardown_waits_for_spawned_child:
  assumes "pipe_answer sa = Inr (r, wr)" and "r \<noteq> wr"
    and "fork_answer sa = Inr pid" and "0 < pid"
    and "sink_impl_ctor in_item_sz cmd sa s0 w0 = (Inr s, w1)"
    and "fdtab w wr = Some e" and "status_flags e \<noteq> - 1" and "streams w wr \<noteq> None"
    and "\<forall>j<k. answers j = Wait_fails EINTR" and "answers k \<noteq> Wait_fails EINTR"
  shows "\<exists>w'. sink_impl_dtor answers s w = Some (Inr (), w') \<and>
           trace w' = trace w @
             [Fcntl_GETFL wr, Fcntl_SETFL wr (status_flags e AND NOT O_NONBLOCK),
              Lib_fclose (FILE wr)] @
             replicate (Suc k) (Sys_waitpid pid 0) @
             [case answers k of
                Wait_fails _ \<Rightarrow> Perror ''waitpid()''
              | Wait_reaps _ status \<Rightarrow>
                  if WIFEXITED status
                  then Cerr ''Process exited with code '' (Some (WEXITSTATUS status))
                  else Cerr ''Abnormal process termination'' None]"
proof -
  have "pid \<noteq> - 1" and "pid \<noteq> 0"
    using assms(4) by simp_all
  from create_parent [OF assms(1,2,3) this, of cmd "s0\<lparr>d_in_item_sz := in_item_sz\<rparr>" w0] assms(5)
  have s: "s = s0\<lparr>d_in_item_sz := in_item_sz, d_cmd_stdin_pipe := (r, wr), d_cmd_pid := pid,
      d_cmd_stdin := FILE wr\<rparr>"
    by (cases "fdopen_answer sa") (simp_all add: sink_impl_ctor_def)
  have "fdtab w (snd (d_cmd_stdin_pipe s)) = Some e" and "d_cmd_stdin s = FILE wr"
    and "d_cmd_pid s = pid" and "snd (d_cmd_stdin_pipe s) = wr"
    using assms(6) by (simp_all add: s)
  with dtor_runs [of w s e wr k answers] assms(7-10) show ?thesis
    by simp
qed

theorem teardown_waits_for_spawned_child_witness:
  "fst (sink_impl_ctor 8 ''cat'' spawn_ok raw_sink initial_world) = Inr running_sink \<and>
   (\<exists>w'. sink_impl_dtor (eintr_then 2 (Wait_fails 10)) running_sink
            (snd (sink_impl_ctor 8 ''cat'' spawn_ok raw_sink initial_world)) =
            Some (Inr (), w') \<and>
          trace w' =
            [Sys_pipe, Sys_fork, Sys_close 3, Fcntl_GETFL 4, Fcntl_SETFL 4 2049,
             Fcntl_SETFD 4 1, Lib_fdopen 4 ''w'',
             Fcntl_GETFL 4, Fcntl_SETFL 4 1, Lib_fclose (FILE 4),
             Sys_waitpid 100 0, Sys_waitpid 100 0, Sys_waitpid 100 0,
             Perror ''waitpid()''])"
proof -
  let ?c = "sink_impl_ctor 8 ''cat'' spawn_ok raw_sink initial_world"
  let ?e = "\<lparr>status_flags = O_WRONLY OR O_NONBLOCK, descriptor_flags = FD_CLOEXEC\<rparr>"
  have p: "pipe_answer spawn_ok = Inr (3, 4)" and f: "fork_answer spawn_ok = Inr 100"
    and o: "fdopen_answer spawn_ok = None"
    by (simp_all add: spawn_ok_def)
  have d: "(3 :: int) \<noteq> 4" and pos: "(0 :: int) < 100" and n1: "(100 :: int) \<noteq> - 1"
    and n0: "(100 :: int) \<noteq> 0"
    by simp_all
  note c = create_parent [OF p d f n1 n0, of "''cat''" "raw_sink\<lparr>d_in_item_sz := 8\<rparr>"
      initial_world]
  have built: "fst ?c = Inr running_sink"
    using c o by (simp add: sink_impl_ctor_def raw_sink_def running_sink_def)
  then have ctor: "?c = (Inr running_sink, snd ?c)"
    by (simp add: prod_eq_iff)
  have tab: "fdtab (snd ?c) 4 = Some ?e" and str: "streams (snd ?c) 4 \<noteq> None"
    and tr: "trace (snd ?c) = [Sys_pipe, Sys_fork, Sys_close 3, Fcntl_GETFL 4,
      Fcntl_SETFL 4 2049, Fcntl_SETFD 4 1, Lib_fdopen 4 ''w'']"
    using c o
    by (simp_all add: sink_impl_ctor_def initial_world_def O_WRONLY_def O_NONBLOCK_def
        FD_CLOEXEC_def)
  have valid: "status_flags ?e \<noteq> - 1"
    by (simp add: O_WRONLY_def O_NONBLOCK_def)
  have intr: "\<forall>j<2. eintr_then 2 (Wait_fails 10) j = Wait_fails EINTR"
    and last: "eintr_then 2 (Wait_fails 10) 2 \<noteq> Wait_fails EINTR"
    and fin: "eintr_then 2 (Wait_fails 10) 2 = Wait_fails 10"
    by (simp_all add: eintr_then_def EINTR_def)
  show ?thesis
    using teardown_waits_for_spawned_child [OF p d f pos ctor tab valid str intr last] built tr fin
    by (simp add: O_WRONLY_def O_NONBLOCK_def numeral_2_eq_2)
qed

text \<open>
  C6. Whenever the destructor ends, one of two things happened. Either it
  returned, and its calls were, in this order: \<open>F_GETFL\<close> and then \<open>F_SETFL\<close> on
  the write descriptor, installing the flags read with \<open>O_NONBLOCK\<close> cleared;
  \<open>fclose\<close> of the stream; one or more \<open>waitpid\<close> on the child; one report. Or
  it ended abruptly, and then it made no \<open>fclose\<close> and no \<open>waitpid\<close> call at all.
\<close>

theorem teardown_clears_nonblock_then_closes_then_waits:
  assumes "sink_impl_dtor answers s w = Some (res, w')"
  shows "(\<exists>e n rep. fdtab w (snd (d_cmd_stdin_pipe s)) = Some e \<and> res = Inr () \<and>
            trace w' = trace w @
              [Fcntl_GETFL (snd (d_cmd_stdin_pipe s)),
               Fcntl_SETFL (snd (d_cmd_stdin_pipe s)) (status_flags e AND NOT O_NONBLOCK),
               Lib_fclose (d_cmd_stdin s)] @
              replicate (Suc n) (Sys_waitpid (d_cmd_pid s) 0) @ [rep] \<and>
            (rep = Perror ''waitpid()'' \<or> (\<exists>m c. rep = Cerr m c)) \<and>
            (status_flags e AND NOT O_NONBLOCK) AND O_NONBLOCK = 0)
       \<or> (\<exists>x. res = Inl x \<and>
            (\<forall>ev \<in> set (drop (length (trace w)) (trace w')).
               (\<forall>f. ev \<noteq> Lib_fclose f) \<and> (\<forall>p opt. ev \<noteq> Sys_waitpid p opt)))"
  using assms by (rule dtor_shape)

theorem teardown_clears_nonblock_then_closes_then_waits_witness:
  "sink_impl_dtor (eintr_then 1 (Wait_reaps 100 1792)) running_sink running_world =
     Some (Inr (),
           \<lparr>fdtab = Map.empty, streams = Map.empty, errno = EINTR,
            trace = [Fcntl_GETFL 4, Fcntl_SETFL 4 1, Lib_fclose (FILE 4),
                     Sys_waitpid 100 0, Sys_waitpid 100 0,
                     Cerr ''Process exited with code '' (Some 7)]\<rparr>)"
proof -
  have run: "sink_impl_dtor (eintr_then 1 (Wait_reaps 100 1792)) running_sink running_world =
      Some (Inr (),
           \<lparr>fdtab = Map.empty, streams = Map.empty, errno = EINTR,
            trace = [Fcntl_GETFL 4, Fcntl_SETFL 4 1, Lib_fclose (FILE 4),
                     Sys_waitpid 100 0, Sys_waitpid 100 0,
                     Cerr ''Process exited with code '' (Some 7)]\<rparr>)"
    by (simp add: sink_impl_dtor_def running_sink_def running_world_def reset_fd_flags_def
        fcntl_getfl_def fcntl_setfl_def Let_def live_def lib_fclose_def emit_def
        wait_loop.simps sys_waitpid_def eintr_then_def SETFL_MASK_def O_WRONLY_def
        O_APPEND_def O_ASYNC_def O_DIRECT_def O_NOATIME_def O_NONBLOCK_def
        WIFEXITED_def WEXITSTATUS_def cerr_def)
  show ?thesis
    using teardown_clears_nonblock_then_closes_then_waits [OF run] run
    by simp
qed

end
